theory Spec2Isabelle
  imports Main "HOL-Library.Word"
begin

unbundle bit_operations_syntax

section \<open>Data model\<close>

text \<open>
  The embedding follows \<^verbatim>\<open>ws.ts\<close> (class \<^verbatim>\<open>WS\<close>) and \<^verbatim>\<open>mod.ts\<close>
  (\<^verbatim>\<open>createConnection\<close>). A \<^verbatim>\<open>Uint8Array\<close> is a list of bytes, a JavaScript string a
  \<open>string\<close>.
\<close>

type_synonym bytes = "8 word list"

text \<open>
  Exceptions are values. \<open>ConnectionReset\<close> is \<^verbatim>\<open>Deno.errors.ConnectionReset\<close> thrown by
  \<^verbatim>\<open>enqueue\<close>, \<open>UnknownProtocol\<close> the \<^verbatim>\<open>Error\<close> thrown by \<^verbatim>\<open>createConnection\<close>,
  \<open>RangeError\<close> what \<^verbatim>\<open>Uint8Array.prototype.set\<close> throws when the source does not fit,
  \<open>TypeError\<close> what \<^verbatim>\<open>Headers.prototype.set\<close> throws on a name or value it refuses, and \<open>External n\<close> any error raised by a collaborator outside the repository (the
  transport, the handshake, the URL parser), told apart by \<open>n\<close>.
\<close>

datatype error =
    ConnectionReset string
  | UnknownProtocol string
  | RangeError
  | TypeError
  | External nat

text \<open>
  \<^verbatim>\<open>OpCode\<close> of std/ws: the six opcodes of the protocol. \<open>Reserved\<close> stands for every
  other 4-bit value, which the \<^verbatim>\<open>switch\<close> of the read loop sends to \<^verbatim>\<open>default\<close>.
\<close>

datatype opcode = Continue | TextFrame | BinaryFrame | Close | Ping | Pong | Reserved nat

text \<open>\<^verbatim>\<open>WebSocketFrame\<close>; the field \<^verbatim>\<open>mask\<close> is optional.\<close>

record frame =
  isLastFrame :: bool
  opcode :: opcode
  mask :: "bytes option"
  payload :: bytes

text \<open>\<^verbatim>\<open>WebSocketMessage = string | Uint8Array\<close>.\<close>

datatype message = Str string | Bin bytes

text \<open>
  The \<^verbatim>\<open>error\<close> member of an \<^verbatim>\<open>ErrorEvent\<close>: the object \<^verbatim>\<open>{ code, reason }\<close> built by
  the Close case of the read loop, or an exception caught by \<^verbatim>\<open>ensureClosed\<close>.
\<close>

datatype error_info = CodeReason "32 word" string | Caught error

text \<open>The events dispatched on the socket, by event type.\<close>

datatype event =
    OpenEv
  | MessageEv message
  | PingEv bytes
  | PongEv bytes
  | ErrorEv error_info
  | CloseEv

text \<open>
  Everything the code does to the outside world, in the order it does it: a call of
  \<^verbatim>\<open>dispatchEvent\<close>, a call of \<^verbatim>\<open>writeFrame\<close>, a call of \<^verbatim>\<open>conn.close()\<close>, and the
  calls \<^verbatim>\<open>createConnection\<close> makes (\<^verbatim>\<open>Deno.connect\<close> or \<^verbatim>\<open>Deno.connectTls\<close> with
  host name and port, \<^verbatim>\<open>handshake\<close> with the headers).
\<close>

datatype effect =
    Dispatch event
  | WriteFrame frame
  | ConnClose
  | Connect bool string "nat option"
  | Handshake "(string \<times> string) list"

text \<open>How a deferred has been settled: \<^verbatim>\<open>d.resolve\<close> or \<^verbatim>\<open>d.reject\<close>.\<close>

datatype settlement = Fulfilled | RejectedWith error

text \<open>
  The promise an \<^verbatim>\<open>async\<close> method returns, as far as the run has got: it returned, it
  threw, or it is suspended at an \<^verbatim>\<open>await\<close> on the deferred \<open>d\<close>, which nothing has
  settled.
\<close>

datatype promise = Returned | Threw error | Pending nat

text \<open>The parts of a parsed \<^verbatim>\<open>URL\<close> that \<^verbatim>\<open>createConnection\<close> reads.\<close>

record url =
  protocol :: string
  hostname :: string
  port :: string

text \<open>
  \<^verbatim>\<open>Connection\<close>. The transport \<^verbatim>\<open>conn\<close> is named by how it was opened; \<^verbatim>\<open>bufReader\<close>
  and \<^verbatim>\<open>bufWriter\<close> wrap that transport and carry nothing else.
\<close>

record connection =
  conn :: "bool \<times> string \<times> nat option"
  conn_mask :: bytes

text \<open>
  The collaborators outside the repository, as parameters: the URL parser, the transport
  (whether opening it fails, what the \<open>n\<close>-th later call of \<^verbatim>\<open>conn.close()\<close> throws, what
  \<^verbatim>\<open>writeFrame\<close> does with a frame), \<^verbatim>\<open>Headers.prototype.set\<close> of the runtime (on the
  list of headers set so far; it may throw), the handshake of std/ws, the random source behind
  \<^verbatim>\<open>createMask\<close> (asked for \<open>n\<close> bytes), and the text codec (\<^verbatim>\<open>TextDecoder\<close>, \<^verbatim>\<open>TextEncoder\<close>). \<open>None\<close> is
  success wherever the result is an \<open>error option\<close>.
\<close>

record env =
  parseURL :: "string \<Rightarrow> error + url"
  connect :: "bool \<Rightarrow> string \<Rightarrow> nat option \<Rightarrow> error option"
  headersSet ::
    "(string \<times> string) list \<Rightarrow> string \<Rightarrow> string \<Rightarrow> error + (string \<times> string) list"
  handshake :: "url \<Rightarrow> (string \<times> string) list \<Rightarrow> error option"
  randomValues :: "nat \<Rightarrow> bytes"
  connClose :: "nat \<Rightarrow> error option"
  writeFrame :: "frame \<Rightarrow> error option"
  decode :: "bytes \<Rightarrow> string"
  encode :: "string \<Rightarrow> bytes"

text \<open>
  The fields of a \<^verbatim>\<open>WS\<close> object (\<^verbatim>\<open>mask\<close> is \<open>ws_mask\<close> here, \<open>None\<close> while
  \<^verbatim>\<open>init\<close> has not assigned it; \<^verbatim>\<open>_isClosed\<close> is \<open>isClosed\<close>). A queue entry \<^verbatim>\<open>{ frame, d }\<close> is a pair of the frame and the name of its
  deferred; \<open>settled\<close> records which deferreds have been settled and how, \<open>nextD\<close> is the
  next unused name, and \<open>effects\<close> is the trace of what the object has done so far.
\<close>

record ws =
  ws_mask :: "bytes option"
  queue :: "(frame \<times> nat) list"
  isClosed :: bool
  readyState :: nat
  settled :: "(nat \<times> settlement) list"
  nextD :: nat
  effects :: "effect list"

definition new_ws :: ws where
  "new_ws = \<lparr>ws_mask = None, queue = [], isClosed = False, readyState = 0,
             settled = [], nextD = 0, effects = []\<rparr>"

definition dispatchEvent :: "event \<Rightarrow> ws \<Rightarrow> ws" where
  "dispatchEvent ev s = s\<lparr>effects := effects s @ [Dispatch ev]\<rparr>"

section \<open>The outbound write queue\<close>

text \<open>
  \<^verbatim>\<open>ensureClosed\<close>: \<^verbatim>\<open>conn.close()\<close> is called; if it throws, the error is dispatched as
  an \<^verbatim>\<open>error\<close> event; in every case the socket is then marked closed and \<^verbatim>\<open>close\<close> is
  dispatched. \<open>closeCalls\<close> counts the calls of \<^verbatim>\<open>conn.close()\<close> made so far.
\<close>

definition closeCalls :: "ws \<Rightarrow> nat" where
  "closeCalls s = length (filter (\<lambda>x. x = ConnClose) (effects s))"

definition ensureClosed :: "env \<Rightarrow> ws \<Rightarrow> ws" where
  "ensureClosed E s =
     (let s1 = s\<lparr>effects := effects s @ [ConnClose]\<rparr>;
          s2 = (case connClose E (closeCalls s) of
                  None \<Rightarrow> s1
                | Some e \<Rightarrow> dispatchEvent (ErrorEv (Caught e)) s1)
      in dispatchEvent CloseEv (s2\<lparr>isClosed := True, readyState := 3\<rparr>))"

text \<open>
  \<^verbatim>\<open>dequeue\<close>: nothing happens when the queue is empty or when \<^verbatim>\<open>!this._isClosed\<close>
  holds. Otherwise the head entry is written, its deferred is settled with the outcome of the
  write, the entry is shifted off the queue and \<^verbatim>\<open>dequeue\<close> runs again. The write is
  taken to complete before anything else happens to the socket.
\<close>

function dequeue :: "env \<Rightarrow> ws \<Rightarrow> ws" where
  "dequeue E s =
     (case queue s of
        [] \<Rightarrow> s
      | entry # rest \<Rightarrow>
          if \<not> isClosed s then s
          else dequeue E
                 (s\<lparr>effects := effects s @ [WriteFrame (fst entry)],
                    settled := (snd entry,
                                case writeFrame E (fst entry) of
                                  None \<Rightarrow> Fulfilled
                                | Some e \<Rightarrow> RejectedWith e) # settled s,
                    queue := rest\<rparr>))"
  by pat_completeness auto
termination
  by (relation "measure (\<lambda>(E, s). length (queue s))") auto

declare dequeue.simps [simp del]

text \<open>
  \<^verbatim>\<open>enqueue\<close>: throws when the socket is closed; otherwise makes a deferred, pushes the
  entry, calls \<^verbatim>\<open>dequeue\<close> when the entry is the only one, and returns the deferred.
\<close>

definition enqueue :: "env \<Rightarrow> frame \<Rightarrow> ws \<Rightarrow> error + (ws \<times> nat)" where
  "enqueue E f s =
     (if isClosed s then Inl (ConnectionReset ''Socket has already been closed!'')
      else
        let d = nextD s;
            s1 = s\<lparr>nextD := Suc d, queue := queue s @ [(f, d)]\<rparr>;
            s2 = (if length (queue s1) = 1 then dequeue E s1 else s1)
        in Inr (s2, d))"

text \<open>The state of the deferred \<open>d\<close>: \<open>None\<close> while it is pending.\<close>

definition settlement_of :: "ws \<Rightarrow> nat \<Rightarrow> settlement option" where
  "settlement_of s d = map_of (settled s) d"

section \<open>The public operations\<close>

text \<open>
  \<^verbatim>\<open>send\<close> and \<^verbatim>\<open>ping\<close> build one final frame carrying \<^verbatim>\<open>this.mask\<close> and return what
  \<^verbatim>\<open>enqueue\<close> returns (or throw what it throws).
\<close>

definition send :: "env \<Rightarrow> message \<Rightarrow> ws \<Rightarrow> error + (ws \<times> nat)" where
  "send E data s =
     enqueue E
       \<lparr>isLastFrame = True,
        opcode = (case data of Str _ \<Rightarrow> TextFrame | Bin _ \<Rightarrow> BinaryFrame),
        mask = ws_mask s,
        payload = (case data of Str t \<Rightarrow> encode E t | Bin b \<Rightarrow> b)\<rparr> s"

definition ping :: "env \<Rightarrow> message \<Rightarrow> ws \<Rightarrow> error + (ws \<times> nat)" where
  "ping E data s =
     enqueue E
       \<lparr>isLastFrame = True,
        opcode = Ping,
        mask = ws_mask s,
        payload = (case data of Str t \<Rightarrow> encode E t | Bin b \<Rightarrow> b)\<rparr> s"

text \<open>
  \<^verbatim>\<open>target.set(source, offs)\<close> on a \<^verbatim>\<open>Uint8Array\<close>: a \<^verbatim>\<open>RangeError\<close> when the source
  does not fit, otherwise the bytes from \<open>offs\<close> on are overwritten.
\<close>

definition uint8_set :: "bytes \<Rightarrow> bytes \<Rightarrow> nat \<Rightarrow> error + bytes" where
  "uint8_set target source offs =
     (if length target < offs + length source then Inl RangeError
      else Inr (take offs target @ source @ drop (offs + length source) target))"

text \<open>
  The default value of the parameter \<^verbatim>\<open>code\<close> of \<^verbatim>\<open>close\<close>, and the array
  \<^verbatim>\<open>[code >>> 8, code & 0x00ff]\<close> as \<^verbatim>\<open>new Uint8Array(header)\<close> stores it (each number
  modulo 256). The code is a 32-bit word, which is what both operators make of their operand.
\<close>

definition default_code :: "32 word" where
  "default_code = 100"

definition close_header :: "32 word \<Rightarrow> bytes" where
  "close_header code = [ucast (drop_bit 8 code), ucast (code AND 0x00ff)]"

text \<open>
  The payload \<^verbatim>\<open>close\<close> builds: header and reason bytes when \<^verbatim>\<open>reason\<close> is truthy (given
  and not empty), the header alone otherwise.
\<close>

definition close_payload :: "env \<Rightarrow> 32 word \<Rightarrow> string option \<Rightarrow> error + bytes" where
  "close_payload E code reason =
     (case reason of
        None \<Rightarrow> Inr (close_header code)
      | Some r \<Rightarrow>
          if r = [] then Inr (close_header code)
          else
            let reasonBytes = encode E r in
            case uint8_set (replicate (2 + length reasonBytes) 0) (close_header code) 0 of
              Inl e \<Rightarrow> Inl e
            | Inr p \<Rightarrow> uint8_set p reasonBytes 2)"

text \<open>
  The \<^verbatim>\<open>catch\<close> and \<^verbatim>\<open>finally\<close> blocks of \<^verbatim>\<open>close\<close>, run once the \<^verbatim>\<open>try\<close> block is
  over: \<^verbatim>\<open>ensureClosed\<close> in every case, and an error of the \<^verbatim>\<open>try\<close> block is thrown
  again.
\<close>

definition close_finally :: "env \<Rightarrow> settlement \<Rightarrow> ws \<Rightarrow> ws \<times> promise" where
  "close_finally E out s =
     (ensureClosed E s, case out of Fulfilled \<Rightarrow> Returned | RejectedWith e \<Rightarrow> Threw e)"

text \<open>
  \<^verbatim>\<open>close\<close>: returns at once on a closed socket; otherwise builds the payload, enqueues the
  Close frame and awaits its deferred. While the deferred is pending the call stays suspended
  at the \<^verbatim>\<open>await\<close>, and neither \<^verbatim>\<open>catch\<close> nor \<^verbatim>\<open>finally\<close> has run.
\<close>

definition close :: "env \<Rightarrow> 32 word option \<Rightarrow> string option \<Rightarrow> ws \<Rightarrow> ws \<times> promise" where
  "close E code reason s =
     (if isClosed s then (s, Returned)
      else
        case close_payload E (case code of None \<Rightarrow> default_code | Some c \<Rightarrow> c) reason of
          Inl e \<Rightarrow> close_finally E (RejectedWith e) s
        | Inr p \<Rightarrow>
            (case enqueue E \<lparr>isLastFrame = True, opcode = Close,
                             mask = ws_mask s, payload = p\<rparr> s of
               Inl e \<Rightarrow> close_finally E (RejectedWith e) s
             | Inr (s', d) \<Rightarrow>
                 (case settlement_of s' d of
                    None \<Rightarrow> (s', Pending d)
                  | Some out \<Rightarrow> close_finally E out s')))"

section \<open>The read loop\<close>

text \<open>
  The local variables of \<^verbatim>\<open>init\<close> next to the socket: the pending fragments and the sum of
  their payload lengths.
\<close>

record reader =
  sock :: ws
  frames :: "frame list"
  payloadsLength :: nat

text \<open>
  Where the loop stands after a frame: \<open>Reading\<close>, it goes on to the next
  \<^verbatim>\<open>readFrame\<close>; \<open>Blocked d\<close>, it is suspended at an \<^verbatim>\<open>await\<close> on the pending deferred
  \<open>d\<close>; \<open>Finished\<close>, it has ended (\<^verbatim>\<open>break\<close> out of the loop, \<^verbatim>\<open>return\<close>, or the loop
  condition); \<open>Crashed e\<close>, the exception \<open>e\<close> has left \<^verbatim>\<open>init\<close>.
\<close>

datatype loop_status = Reading | Blocked nat | Finished | Crashed error

text \<open>The \<^verbatim>\<open>for\<close> loop that copies the fragments into \<^verbatim>\<open>concat\<close> (\<open>buf\<close> here).\<close>

fun concat_frames :: "frame list \<Rightarrow> bytes \<Rightarrow> nat \<Rightarrow> error + bytes" where
  "concat_frames [] buf offs = Inr buf"
| "concat_frames (f # fs) buf offs =
     (case uint8_set buf (payload f) offs of
        Inl e \<Rightarrow> Inl e
      | Inr buf' \<Rightarrow> concat_frames fs buf' (offs + length (payload f)))"

text \<open>The case of \<^verbatim>\<open>TextFrame\<close>, \<^verbatim>\<open>BinaryFrame\<close> and \<^verbatim>\<open>Continue\<close>.\<close>

definition on_data :: "env \<Rightarrow> frame \<Rightarrow> reader \<Rightarrow> reader \<times> loop_status" where
  "on_data E f st =
     (let fs = frames st @ [f];
          n = payloadsLength st + length (payload f)
      in if isLastFrame f then
           (case concat_frames fs (replicate n 0) 0 of
              Inl e \<Rightarrow> (st\<lparr>frames := fs, payloadsLength := n\<rparr>, Crashed e)
            | Inr buf \<Rightarrow>
                (\<lparr>sock = dispatchEvent
                           (MessageEv (if opcode (hd fs) = TextFrame
                                       then Str (decode E buf) else Bin buf))
                           (sock st),
                  frames = [], payloadsLength = 0\<rparr>, Reading))
         else (st\<lparr>frames := fs, payloadsLength := n\<rparr>, Reading))"

text \<open>
  Reading a typed array at an index gives \<^verbatim>\<open>undefined\<close> out of range, and the operators
  \<^verbatim>\<open><<\<close> and \<^verbatim>\<open>|\<close> take \<^verbatim>\<open>undefined\<close> for 0.
\<close>

definition js_index :: "bytes \<Rightarrow> nat \<Rightarrow> 8 word option" where
  "js_index p i = (if i < length p then Some (p ! i) else None)"

definition to_int32 :: "8 word option \<Rightarrow> 32 word" where
  "to_int32 v = (case v of None \<Rightarrow> 0 | Some b \<Rightarrow> ucast b)"

definition close_code :: "bytes \<Rightarrow> 32 word" where
  "close_code p = push_bit 8 (to_int32 (js_index p 0)) OR to_int32 (js_index p 1)"

definition close_reason :: "env \<Rightarrow> bytes \<Rightarrow> string" where
  "close_reason E p = decode E (drop 2 p)"

text \<open>The case of \<^verbatim>\<open>Close\<close>.\<close>

definition on_close :: "env \<Rightarrow> frame \<Rightarrow> reader \<Rightarrow> reader \<times> loop_status" where
  "on_close E f st =
     (let code = close_code (payload f);
          reason = close_reason E (payload f)
      in case close E (Some code) (Some reason) ((sock st)\<lparr>readyState := 2\<rparr>) of
           (s', Returned) \<Rightarrow>
             (st\<lparr>sock := dispatchEvent (ErrorEv (CodeReason code reason)) s'\<rparr>, Finished)
         | (s', Threw e) \<Rightarrow> (st\<lparr>sock := s'\<rparr>, Crashed e)
         | (s', Pending d) \<Rightarrow> (st\<lparr>sock := s'\<rparr>, Blocked d))"

text \<open>
  The case of \<^verbatim>\<open>Ping\<close>: the Pong frame as the object literal builds it, the enqueue, and
  what follows the \<^verbatim>\<open>await\<close> once the deferred is settled.
\<close>

definition pong_frame :: "bytes \<Rightarrow> frame" where
  "pong_frame p = \<lparr>isLastFrame = True, opcode = Pong, mask = None, payload = p\<rparr>"

definition ping_resume :: "settlement \<Rightarrow> bytes \<Rightarrow> ws \<Rightarrow> ws \<times> loop_status" where
  "ping_resume out p s =
     (case out of
        Fulfilled \<Rightarrow> (dispatchEvent (PingEv p) s, Reading)
      | RejectedWith e \<Rightarrow> (s, Crashed e))"

definition on_ping :: "env \<Rightarrow> frame \<Rightarrow> reader \<Rightarrow> reader \<times> loop_status" where
  "on_ping E f st =
     (case enqueue E (pong_frame (payload f)) (sock st) of
        Inl e \<Rightarrow> (st, Crashed e)
      | Inr (s', d) \<Rightarrow>
          (case settlement_of s' d of
             None \<Rightarrow> (st\<lparr>sock := s'\<rparr>, Blocked d)
           | Some out \<Rightarrow>
               (let (s'', r) = ping_resume out (payload f) s' in (st\<lparr>sock := s''\<rparr>, r))))"

text \<open>The \<^verbatim>\<open>switch\<close> on the opcode.\<close>

definition on_frame :: "env \<Rightarrow> frame \<Rightarrow> reader \<Rightarrow> reader \<times> loop_status" where
  "on_frame E f st =
     (case opcode f of
        TextFrame \<Rightarrow> on_data E f st
      | BinaryFrame \<Rightarrow> on_data E f st
      | Continue \<Rightarrow> on_data E f st
      | Close \<Rightarrow> on_close E f st
      | Ping \<Rightarrow> on_ping E f st
      | Pong \<Rightarrow> (st\<lparr>sock := dispatchEvent (PongEv (payload f)) (sock st)\<rparr>, Reading)
      | Reserved _ \<Rightarrow> (st, Reading))"

text \<open>
  The \<^verbatim>\<open>while\<close> loop over the results of the successive calls of \<^verbatim>\<open>readFrame\<close>
  (\<open>Inl\<close>: the call threw). When the results run out the loop is waiting in \<^verbatim>\<open>readFrame\<close>.
\<close>

fun read_loop :: "env \<Rightarrow> (error + frame) list \<Rightarrow> reader \<Rightarrow> reader \<times> loop_status" where
  "read_loop E [] st = (st, if isClosed (sock st) then Finished else Reading)"
| "read_loop E (r # rs) st =
     (if isClosed (sock st) then (st, Finished)
      else
        case r of
          Inl e \<Rightarrow> (st\<lparr>sock := ensureClosed E (sock st)\<rparr>, Finished)
        | Inr f \<Rightarrow>
            (let (st', status) = on_frame E f st
             in if status = Reading then read_loop E rs st' else (st', status)))"

section \<open>Opening a connection\<close>

text \<open>
  \<^verbatim>\<open>parseInt\<close> on the port of a parsed URL, which is empty or made of decimal digits: the
  value of the leading digits, \<open>None\<close> (\<^verbatim>\<open>NaN\<close>) when there is none.
\<close>

definition is_digit :: "char \<Rightarrow> bool" where
  "is_digit c = (48 \<le> (of_char c :: nat) \<and> (of_char c :: nat) \<le> 57)"

definition parseInt :: "string \<Rightarrow> nat option" where
  "parseInt s =
     (case takeWhile is_digit s of
        [] \<Rightarrow> None
      | ds \<Rightarrow> Some (foldl (\<lambda>a c. 10 * a + (of_char c - 48)) 0 ds))"

text \<open>
  The \<^verbatim>\<open>for\<close> loop over the caller's headers, in the order the \<^verbatim>\<open>for ... in\<close>
  enumerates them: each is set on \<^verbatim>\<open>headersObject\<close>, and the first call of \<^verbatim>\<open>set\<close> that
  throws ends the loop with its error.
\<close>

fun set_headers ::
  "env \<Rightarrow> (string \<times> string) list \<Rightarrow> (string \<times> string) list
     \<Rightarrow> error + (string \<times> string) list"
where
  "set_headers E headersObject [] = Inr headersObject"
| "set_headers E headersObject (header # rest) =
     (case headersSet E headersObject (fst header) (snd header) of
        Inl e \<Rightarrow> Inl e
      | Inr headersObject' \<Rightarrow> set_headers E headersObject' rest)"

definition createMask :: "env \<Rightarrow> bytes" where
  "createMask E = randomValues E 4"

text \<open>
  \<^verbatim>\<open>createConnection\<close> returns the calls it made on the outside world, in order, and either
  the error it threw or the connection. The loop over the headers runs after the transport
  is opened and outside the \<^verbatim>\<open>try\<close>: an error of \<^verbatim>\<open>Headers.prototype.set\<close> leaves
  \<^verbatim>\<open>createConnection\<close> with no call of \<^verbatim>\<open>handshake\<close> and none of \<^verbatim>\<open>conn.close()\<close>.
\<close>

definition open_and_handshake ::
  "env \<Rightarrow> url \<Rightarrow> (string \<times> string) list \<Rightarrow> bool \<Rightarrow> string \<Rightarrow> effect list \<times> (error + connection)"
where
  "open_and_handshake E u headers tls default_port =
     (let p = parseInt (if port u = [] then default_port else port u);
          opened = [Connect tls (hostname u) p]
      in case connect E tls (hostname u) p of
           Some e \<Rightarrow> (opened, Inl e)
         | None \<Rightarrow>
             (case set_headers E [] headers of
                Inl e \<Rightarrow> (opened, Inl e)
              | Inr headersObject \<Rightarrow>
                  (let tried = opened @ [Handshake headersObject]
                   in case handshake E u headersObject of
                        Some e \<Rightarrow>
                          (tried @ [ConnClose],
                           Inl (case connClose E 0 of None \<Rightarrow> e | Some e' \<Rightarrow> e'))
                      | None \<Rightarrow>
                          (tried,
                           Inr \<lparr>conn = (tls, hostname u, p), conn_mask = createMask E\<rparr>))))"

definition createConnection ::
  "env \<Rightarrow> string \<Rightarrow> (string \<times> string) list \<Rightarrow> effect list \<times> (error + connection)"
where
  "createConnection E address headers =
     (case parseURL E address of
        Inl e \<Rightarrow> ([], Inl e)
      | Inr u \<Rightarrow>
          if protocol u = ''http:'' \<or> protocol u = ''ws:''
            then open_and_handshake E u headers False ''80''
          else if protocol u = ''https:'' \<or> protocol u = ''wss:''
            then open_and_handshake E u headers True ''443''
          else ([], Inl (UnknownProtocol
                          (''WS: Unknown protocol supplied to connect: '' @ protocol u))))"

text \<open>
  \<^verbatim>\<open>init\<close>: the connection is the one passed in, or the one \<^verbatim>\<open>createConnection\<close> makes
  for an address; then the socket is open and the read loop runs. The constructor calls
  \<^verbatim>\<open>init\<close> on a fresh object.
\<close>

definition init_open :: "env \<Rightarrow> connection \<Rightarrow> (error + frame) list \<Rightarrow> ws \<Rightarrow> reader \<times> loop_status" where
  "init_open E c reads s =
     read_loop E reads
       \<lparr>sock = (dispatchEvent OpenEv (s\<lparr>readyState := 1\<rparr>))\<lparr>ws_mask := Some (conn_mask c)\<rparr>,
        frames = [], payloadsLength = 0\<rparr>"

definition init ::
  "env \<Rightarrow> (string \<times> (string \<times> string) list) + connection \<Rightarrow> (error + frame) list \<Rightarrow> ws
     \<Rightarrow> reader \<times> loop_status"
where
  "init E socket reads s =
     (case socket of
        Inr c \<Rightarrow> init_open E c reads s
      | Inl (address, headers) \<Rightarrow>
          (let (calls, r) = createConnection E address headers;
               s' = s\<lparr>effects := effects s @ calls\<rparr>
           in case r of
                Inl e \<Rightarrow> (\<lparr>sock = s', frames = [], payloadsLength = 0\<rparr>, Crashed e)
              | Inr c \<Rightarrow> init_open E c reads s'))"

definition new_WS ::
  "env \<Rightarrow> (string \<times> (string \<times> string) list) + connection \<Rightarrow> (error + frame) list
     \<Rightarrow> reader \<times> loop_status"
where
  "new_WS E socket reads = init E socket reads new_ws"

section \<open>Observations and scenarios\<close>

text \<open>
  The frames the first case of the \<^verbatim>\<open>switch\<close> takes.
\<close>

definition is_data :: "frame \<Rightarrow> bool" where
  "is_data f = (opcode f = TextFrame \<or> opcode f = BinaryFrame \<or> opcode f = Continue)"

text \<open>The frames passed to \<^verbatim>\<open>writeFrame\<close> so far, oldest first.\<close>

definition written :: "ws \<Rightarrow> frame list" where
  "written s = concat (map (\<lambda>x. case x of WriteFrame f \<Rightarrow> [f] | _ \<Rightarrow> []) (effects s))"

text \<open>Calls of \<^verbatim>\<open>send\<close> one after the other, and two calls of \<^verbatim>\<open>close()\<close>.\<close>

fun send_all :: "env \<Rightarrow> message list \<Rightarrow> ws \<Rightarrow> error + ws" where
  "send_all E [] s = Inr s"
| "send_all E (m # ms) s =
     (case send E m s of Inl e \<Rightarrow> Inl e | Inr (s', d) \<Rightarrow> send_all E ms s')"

definition close_twice :: "env \<Rightarrow> ws \<Rightarrow> ws \<times> promise \<times> promise" where
  "close_twice E s =
     (let (s1, r1) = close E None None s;
          (s2, r2) = close E None None s1
      in (s2, r1, r2))"

text \<open>
  A concrete world for the scenarios: the transport and the handshake do not fail, the
  mask is \<open>[1, 2, 3, 4]\<close>, and the text codec maps a byte to the character of the same
  code, which is what UTF-8 does on ASCII text. Its \<^verbatim>\<open>Headers.prototype.set\<close> refuses an
  empty name, lower-cases the ASCII letters of a name, replaces the value of a name already
  present and adds a new name at the end. \<open>open_ws\<close> is the socket as the constructor
  leaves it on an established connection.
\<close>

definition ascii_lower :: "char \<Rightarrow> char" where
  "ascii_lower c =
     (if 65 \<le> (of_char c :: nat) \<and> (of_char c :: nat) \<le> 90
      then char_of ((of_char c :: nat) + 32) else c)"

fun replace_header ::
  "(string \<times> string) list \<Rightarrow> string \<Rightarrow> string \<Rightarrow> (string \<times> string) list"
where
  "replace_header [] k v = [(k, v)]"
| "replace_header ((k', v') # hs) k v =
     (if k' = k then (k, v) # hs else (k', v') # replace_header hs k v)"

definition example_headers_set ::
  "(string \<times> string) list \<Rightarrow> string \<Rightarrow> string \<Rightarrow> error + (string \<times> string) list"
where
  "example_headers_set hs k v =
     (if k = [] then Inl TypeError else Inr (replace_header hs (map ascii_lower k) v))"

definition ascii_decode :: "bytes \<Rightarrow> string" where
  "ascii_decode bs = map (\<lambda>b. char_of (unat b)) bs"

definition ascii_encode :: "string \<Rightarrow> bytes" where
  "ascii_encode t = map of_char t"

definition example_url :: url where
  "example_url = \<lparr>protocol = ''wss:'', hostname = ''example.test'', port = []\<rparr>"

definition example_env :: env where
  "example_env =
     \<lparr>parseURL = (\<lambda>a. if a = ''wss://example.test'' then Inr example_url
                       else Inl (External 1)),
      connect = (\<lambda>tls host p. None),
      headersSet = example_headers_set,
      handshake = (\<lambda>u hs. None),
      randomValues = (\<lambda>n. take n [1, 2, 3, 4]),
      connClose = (\<lambda>n. None),
      writeFrame = (\<lambda>f. None),
      decode = ascii_decode,
      encode = ascii_encode\<rparr>"

definition example_conn :: connection where
  "example_conn = \<lparr>conn = (True, ''example.test'', Some 443), conn_mask = [1, 2, 3, 4]\<rparr>"

definition open_ws :: ws where
  "open_ws = \<lparr>ws_mask = Some [1, 2, 3, 4], queue = [], isClosed = False, readyState = 1,
             settled = [], nextD = 0, effects = [Dispatch OpenEv]\<rparr>"

section \<open>Facts about the queue and the close path\<close>

lemma open_ws_constructed:
  "new_WS example_env (Inr example_conn) []
     = (\<lparr>sock = open_ws, frames = [], payloadsLength = 0\<rparr>, Reading)"
  by (simp add: new_WS_def init_def init_open_def new_ws_def dispatchEvent_def
        example_conn_def open_ws_def)

lemma open_ws_from_address:
  "new_WS example_env (Inl (''wss://example.test'', [])) []
     = (\<lparr>sock = open_ws\<lparr>effects := [Connect True ''example.test'' (Some 443), Handshake [],
                                      Dispatch OpenEv]\<rparr>,
         frames = [], payloadsLength = 0\<rparr>, Reading)"
  by code_simp

text \<open>On a socket that is not closed \<^verbatim>\<open>dequeue\<close> returns at its first line.\<close>

lemma dequeue_open: "\<not> isClosed s \<Longrightarrow> dequeue E s = s"
  by (simp add: dequeue.simps split: list.splits)

text \<open>
  On a closed socket it writes every queued frame, in queue order, whatever the outcome of
  the earlier writes, and leaves the queue empty.
\<close>

lemma dequeue_closed:
  "isClosed s \<Longrightarrow>
   queue (dequeue E s) = []
   \<and> isClosed (dequeue E s)
   \<and> effects (dequeue E s) = effects s @ map (\<lambda>entry. WriteFrame (fst entry)) (queue s)"
proof (induction E s rule: dequeue.induct)
  case (1 E s)
  show ?case
  proof (cases "queue s")
    case Nil
    with "1.prems" show ?thesis by (simp add: dequeue.simps)
  next
    case (Cons entry rest)
    let ?s' = "s\<lparr>effects := effects s @ [WriteFrame (fst entry)],
                  settled := (snd entry,
                              case writeFrame E (fst entry) of
                                None \<Rightarrow> Fulfilled
                              | Some e \<Rightarrow> RejectedWith e) # settled s,
                  queue := rest\<rparr>"
    have step: "dequeue E s = dequeue E ?s'"
      using Cons "1.prems" by (subst dequeue.simps) simp
    have "queue (dequeue E ?s') = [] \<and> isClosed (dequeue E ?s')
          \<and> effects (dequeue E ?s')
              = effects ?s' @ map (\<lambda>entry. WriteFrame (fst entry)) (queue ?s')"
      using Cons "1.prems" by (intro "1.IH") simp_all
    with step Cons show ?thesis by simp
  qed
qed

lemma enqueue_open:
  "\<not> isClosed s \<Longrightarrow>
   enqueue E f s = Inr (s\<lparr>nextD := Suc (nextD s), queue := queue s @ [(f, nextD s)]\<rparr>, nextD s)"
  by (simp add: enqueue_def Let_def dequeue_open)

lemma enqueue_closed:
  "isClosed s \<Longrightarrow> enqueue E f s = Inl (ConnectionReset ''Socket has already been closed!'')"
  by (simp add: enqueue_def)

lemma close_closed: "isClosed s \<Longrightarrow> close E code reason s = (s, Returned)"
  by (simp add: close_def)

lemma ensureClosed_state:
  "isClosed (ensureClosed E s) \<and> readyState (ensureClosed E s) = 3
   \<and> queue (ensureClosed E s) = queue s
   \<and> closeCalls (ensureClosed E s) = Suc (closeCalls s)
   \<and> effects (ensureClosed E s) =
       effects s @ ConnClose #
         (case connClose E (closeCalls s) of
            None \<Rightarrow> []
          | Some e \<Rightarrow> [Dispatch (ErrorEv (Caught e))])
         @ [Dispatch CloseEv]"
  by (simp add: ensureClosed_def Let_def dispatchEvent_def closeCalls_def split: option.splits)

text \<open>The two calls of \<^verbatim>\<open>set\<close> in \<^verbatim>\<open>close\<close> never fail.\<close>

lemma close_payload_value:
  "close_payload E code reason =
     Inr (close_header code @
          (case reason of None \<Rightarrow> [] | Some r \<Rightarrow> if r = [] then [] else encode E r))"
  by (simp add: close_payload_def close_header_def uint8_set_def Let_def split: option.splits)

text \<open>
  On a socket that is not closed, \<^verbatim>\<open>close\<close> stops at its \<^verbatim>\<open>await\<close> with nothing but
  the queue changed, whatever the code and the reason, as long as the new deferred is
  pending.
\<close>

lemma close_open_pending:
  assumes "\<not> isClosed s" and "settlement_of s (nextD s) = None"
  shows "snd (close E code reason s) = Pending (nextD s)
         \<and> \<not> isClosed (fst (close E code reason s))
         \<and> readyState (fst (close E code reason s)) = readyState s
         \<and> effects (fst (close E code reason s)) = effects s
         \<and> length (queue (fst (close E code reason s))) = Suc (length (queue s))"
  using assms
  by (simp add: close_def close_payload_value enqueue_open settlement_of_def)

lemma on_close_queue:
  assumes "\<not> isClosed (sock st)"
  shows "map fst (queue (sock (fst (on_close E f st)))) =
           map fst (queue (sock st)) @
             [\<lparr>isLastFrame = True, opcode = Close, mask = ws_mask (sock st),
               payload = close_header (close_code (payload f)) @
                  (if close_reason E (payload f) = [] then []
                   else encode E (close_reason E (payload f)))\<rparr>]"
  using assms
  by (simp add: on_close_def Let_def close_def close_payload_value enqueue_open
        close_finally_def ensureClosed_state dispatchEvent_def
        split: option.splits settlement.splits)

section \<open>No operation writes a frame or settles a deferred\<close>

text \<open>
  \<^verbatim>\<open>enqueue\<close> is the only caller of \<^verbatim>\<open>dequeue\<close> from outside it, and it throws on a
  closed socket, while \<^verbatim>\<open>dequeue\<close> goes on only on a closed one. So neither the public
  operations nor the read loop ever pass a frame to \<^verbatim>\<open>writeFrame\<close> or settle a deferred.
\<close>

lemma written_frame [simp]:
  "written (s\<lparr>nextD := n\<rparr>) = written s"
  "written (s\<lparr>queue := q\<rparr>) = written s"
  "written (s\<lparr>readyState := k\<rparr>) = written s"
  "written (dispatchEvent ev s) = written s"
  "settled (dispatchEvent ev s) = settled s"
  by (simp_all add: written_def dispatchEvent_def)

lemma enqueue_idle:
  "enqueue E f s = Inr (s', d) \<Longrightarrow> settled s' = settled s \<and> written s' = written s"
  by (cases "isClosed s") (auto simp: enqueue_closed enqueue_open)

lemma send_idle:
  "send E m s = Inr (s', d) \<Longrightarrow> settled s' = settled s \<and> written s' = written s"
  unfolding send_def by (rule enqueue_idle)

lemma ping_idle:
  "ping E m s = Inr (s', d) \<Longrightarrow> settled s' = settled s \<and> written s' = written s"
  unfolding ping_def by (rule enqueue_idle)

lemma ensureClosed_idle:
  "settled (ensureClosed E s) = settled s \<and> written (ensureClosed E s) = written s"
  by (simp add: ensureClosed_def Let_def written_def dispatchEvent_def split: option.splits)

lemma close_idle:
  "settled (fst (close E code reason s)) = settled s
   \<and> written (fst (close E code reason s)) = written s"
proof (cases "isClosed s")
  case True
  then show ?thesis by (simp add: close_closed)
next
  case False
  then show ?thesis
    by (simp add: close_def close_payload_value enqueue_open close_finally_def
          ensureClosed_idle split: option.splits)
qed

lemma on_frame_idle:
  "settled (sock (fst (on_frame E f st))) = settled (sock st)
   \<and> written (sock (fst (on_frame E f st))) = written (sock st)"
proof (cases "opcode f")
  case Close
  obtain s' r where c:
    "close E (Some (close_code (payload f))) (Some (close_reason E (payload f)))
       ((sock st)\<lparr>readyState := 2\<rparr>) = (s', r)"
    by (cases "close E (Some (close_code (payload f))) (Some (close_reason E (payload f)))
                 ((sock st)\<lparr>readyState := 2\<rparr>)")
  from close_idle [of E "Some (close_code (payload f))" "Some (close_reason E (payload f))"
                      "(sock st)\<lparr>readyState := 2\<rparr>"] c
  have "settled s' = settled (sock st) \<and> written s' = written (sock st)"
    by simp
  with Close c show ?thesis
    by (cases r) (simp_all add: on_frame_def on_close_def Let_def)
next
  case Ping
  show ?thesis
  proof (cases "isClosed (sock st)")
    case True
    with Ping show ?thesis by (simp add: on_frame_def on_ping_def enqueue_closed)
  next
    case False
    with Ping show ?thesis
      by (simp add: on_frame_def on_ping_def enqueue_open ping_resume_def
            split: option.splits settlement.splits)
  qed
qed (simp_all add: on_frame_def on_data_def Let_def split: sum.splits)

lemma read_loop_idle:
  "settled (sock (fst (read_loop E rs st))) = settled (sock st)
   \<and> written (sock (fst (read_loop E rs st))) = written (sock st)"
proof (induction rs arbitrary: st)
  case Nil
  then show ?case by simp
next
  case (Cons r rs)
  show ?case
  proof (cases r)
    case (Inl e)
    then show ?thesis by (simp add: ensureClosed_idle)
  next
    case (Inr f)
    obtain st' status where step: "on_frame E f st = (st', status)"
      by (cases "on_frame E f st")
    with on_frame_idle [of E f st]
    have "settled (sock st') = settled (sock st) \<and> written (sock st') = written (sock st)"
      by simp
    with Inr step Cons.IH [of st'] show ?thesis by simp
  qed
qed

section \<open>Facts about reassembly\<close>

lemma concat_frames_fits:
  "length buf = offs + sum_list (map (\<lambda>f. length (payload f)) fs)
   \<Longrightarrow> concat_frames fs buf offs = Inr (take offs buf @ concat (map payload fs))"
proof (induction fs arbitrary: buf offs)
  case Nil
  then show ?case by simp
next
  case (Cons f fs)
  let ?n = "length (payload f)"
  let ?buf' = "take offs buf @ payload f @ drop (offs + ?n) buf"
  from Cons.prems have fits: "\<not> length buf < offs + ?n" by simp
  have len: "length ?buf' = (offs + ?n) + sum_list (map (\<lambda>f. length (payload f)) fs)"
    using Cons.prems by simp
  have "concat_frames (f # fs) buf offs = concat_frames fs ?buf' (offs + ?n)"
    using fits by (simp add: uint8_set_def)
  also have "\<dots> = Inr (take (offs + ?n) ?buf' @ concat (map payload fs))"
    by (rule Cons.IH [OF len])
  also have "take (offs + ?n) ?buf' = take offs buf @ payload f"
    using Cons.prems by simp
  finally show ?case by simp
qed

lemma concat_frames_all:
  "concat_frames fs (replicate (sum_list (map (\<lambda>f. length (payload f)) fs)) 0) 0
     = Inr (concat (map payload fs))"
  using concat_frames_fits [of "replicate (sum_list (map (\<lambda>f. length (payload f)) fs)) 0" 0 fs]
  by simp

lemma on_frame_data: "is_data f \<Longrightarrow> on_frame E f st = on_data E f st"
  by (auto simp: is_data_def on_frame_def)

lemma on_data_fragment:
  "\<not> isLastFrame f \<Longrightarrow>
   on_data E f st =
     (st\<lparr>frames := frames st @ [f], payloadsLength := payloadsLength st + length (payload f)\<rparr>,
      Reading)"
  by (simp add: on_data_def Let_def)

lemma read_loop_fragments:
  "\<not> isClosed (sock st) \<Longrightarrow> \<forall>f \<in> set fs. is_data f \<and> \<not> isLastFrame f \<Longrightarrow>
   read_loop E (map Inr fs @ rest) st =
     read_loop E rest
       (st\<lparr>frames := frames st @ fs,
          payloadsLength := payloadsLength st + sum_list (map (\<lambda>f. length (payload f)) fs)\<rparr>)"
proof (induction fs arbitrary: st)
  case Nil
  then show ?case by simp
next
  case (Cons f fs)
  let ?st' = "st\<lparr>frames := frames st @ [f],
                 payloadsLength := payloadsLength st + length (payload f)\<rparr>"
  from Cons.prems have f: "is_data f" "\<not> isLastFrame f" by simp_all
  have "read_loop E (map Inr (f # fs) @ rest) st = read_loop E (map Inr fs @ rest) ?st'"
    using Cons.prems(1) f by (simp add: on_frame_data on_data_fragment)
  also have "\<dots> = read_loop E rest
       (?st'\<lparr>frames := frames ?st' @ fs,
          payloadsLength := payloadsLength ?st' + sum_list (map (\<lambda>f. length (payload f)) fs)\<rparr>)"
    using Cons.prems by (intro Cons.IH) simp_all
  finally show ?case by (simp add: add.assoc)
qed

lemma on_data_final:
  assumes "isLastFrame f"
    and "payloadsLength st = sum_list (map (\<lambda>f. length (payload f)) (frames st))"
  shows "on_data E f st =
     (\<lparr>sock = dispatchEvent
                (MessageEv (if opcode (hd (frames st @ [f])) = TextFrame
                            then Str (decode E (concat (map payload (frames st @ [f]))))
                            else Bin (concat (map payload (frames st @ [f])))))
                (sock st),
       frames = [], payloadsLength = 0\<rparr>, Reading)"
proof -
  have "concat_frames (frames st @ [f])
          (replicate (payloadsLength st + length (payload f)) 0) 0
        = Inr (concat (map payload (frames st @ [f])))"
    using concat_frames_all [of "frames st @ [f]"] assms(2) by simp
  then show ?thesis using assms(1) by (simp add: on_data_def Let_def)
qed

section \<open>Reassembly of a fragmented message\<close>

text \<open>
  C7. Let the read loop start with an empty buffer on a socket that is not closed, and read a
  first frame (Text or Binary, not final), any number of continuation frames that are not
  final, and a final continuation frame. Then exactly one \<^verbatim>\<open>message\<close> event is dispatched;
  its data is the concatenation of the payloads in the order read, decoded as text when the
  first frame was a Text frame and left as bytes otherwise; the buffer is empty again and the
  loop goes on reading.
\<close>

theorem fragments_reassembled:
  assumes "\<not> isClosed s"
    and "opcode first = TextFrame \<or> opcode first = BinaryFrame"
    and "\<not> isLastFrame first"
    and "\<forall>f \<in> set middle. opcode f = Continue \<and> \<not> isLastFrame f"
    and "opcode final = Continue"
    and "isLastFrame final"
  shows "read_loop E (map Inr (first # middle @ [final]))
           \<lparr>sock = s, frames = [], payloadsLength = 0\<rparr>
         = (\<lparr>sock = s\<lparr>effects := effects s @
                      [Dispatch
                         (MessageEv
                            (if opcode first = TextFrame
                             then Str (decode E (concat (map payload (first # middle @ [final]))))
                             else Bin (concat (map payload (first # middle @ [final])))))]\<rparr>,
             frames = [], payloadsLength = 0\<rparr>, Reading)"
proof -
  let ?st0 = "\<lparr>sock = s, frames = [], payloadsLength = 0\<rparr>"
  let ?fs = "first # middle"
  let ?st1 = "?st0\<lparr>frames := frames ?st0 @ ?fs,
                 payloadsLength := payloadsLength ?st0
                                   + sum_list (map (\<lambda>f. length (payload f)) ?fs)\<rparr>"
  have frag: "\<forall>f \<in> set ?fs. is_data f \<and> \<not> isLastFrame f"
    using assms(2,3,4) by (auto simp: is_data_def)
  have "read_loop E (map Inr (first # middle @ [final])) ?st0
        = read_loop E (map Inr ?fs @ [Inr final]) ?st0"
    by simp
  also have "\<dots> = read_loop E [Inr final] ?st1"
    using assms(1) frag by (intro read_loop_fragments) simp_all
  also have "\<dots> = (let (st', status) = on_data E final ?st1
                   in if status = Reading then read_loop E [] st' else (st', status))"
    using assms(1,5) by (simp add: on_frame_data is_data_def)
  also have "on_data E final ?st1 =
     (\<lparr>sock = dispatchEvent
                (MessageEv (if opcode (hd (frames ?st1 @ [final])) = TextFrame
                            then Str (decode E (concat (map payload (frames ?st1 @ [final]))))
                            else Bin (concat (map payload (frames ?st1 @ [final])))))
                (sock ?st1),
       frames = [], payloadsLength = 0\<rparr>, Reading)"
    using assms(6) by (intro on_data_final) simp_all
  finally show ?thesis using assms(1) by (simp add: dispatchEvent_def)
qed

text \<open>The fragments "ab", "cd", "ef" under a Text first frame give the text "abcdef".\<close>

theorem fragments_reassembled_witness:
  "\<not> isClosed open_ws
   \<and> read_loop example_env
        [Inr \<lparr>isLastFrame = False, opcode = TextFrame, mask = None, payload = [97, 98]\<rparr>,
         Inr \<lparr>isLastFrame = False, opcode = Continue, mask = None, payload = [99, 100]\<rparr>,
         Inr \<lparr>isLastFrame = True, opcode = Continue, mask = None, payload = [101, 102]\<rparr>]
        \<lparr>sock = open_ws, frames = [], payloadsLength = 0\<rparr>
     = (\<lparr>sock = open_ws\<lparr>effects := [Dispatch OpenEv, Dispatch (MessageEv (Str ''abcdef''))]\<rparr>,
         frames = [], payloadsLength = 0\<rparr>, Reading)"
proof -
  let ?a = "\<lparr>isLastFrame = False, opcode = TextFrame, mask = None, payload = [97, 98]\<rparr>"
  let ?b = "\<lparr>isLastFrame = False, opcode = Continue, mask = None, payload = [99, 100]\<rparr>"
  let ?c = "\<lparr>isLastFrame = True, opcode = Continue, mask = None, payload = [101, 102]\<rparr>"
  have not_closed: "\<not> isClosed open_ws" by (simp add: open_ws_def)
  have first: "opcode ?a = TextFrame \<or> opcode ?a = BinaryFrame" "\<not> isLastFrame ?a"
    by simp_all
  have middle: "\<forall>f \<in> set [?b]. opcode f = Continue \<and> \<not> isLastFrame f" by simp
  have final: "opcode ?c = Continue" "isLastFrame ?c" by simp_all
  have decoded: "decode example_env (concat (map payload (?a # [?b] @ [?c]))) = ''abcdef''"
    by code_simp
  have trace: "effects open_ws = [Dispatch OpenEv]" by (simp add: open_ws_def)
  from fragments_reassembled [OF not_closed first middle final, of example_env]
    decoded not_closed trace
  show ?thesis by simp
qed

section \<open>The write queue never writes\<close>

text \<open>
  C1. On an open socket with an empty queue, \<^verbatim>\<open>send("a")\<close>, \<^verbatim>\<open>send("b")\<close> and
  \<^verbatim>\<open>send("c")\<close> leave three entries in the queue in call order, every deferred pending,
  and no call of \<^verbatim>\<open>writeFrame\<close> in the trace: the first entry found the queue empty, yet
  its write did not begin, because \<^verbatim>\<open>dequeue\<close> returns whenever the socket is not closed.
\<close>

theorem three_sends_write_nothing:
  "send_all example_env [Str ''a'', Str ''b'', Str ''c''] open_ws =
     Inr \<lparr>ws_mask = Some [1, 2, 3, 4],
          queue =
            [(\<lparr>isLastFrame = True, opcode = TextFrame, mask = Some [1, 2, 3, 4],
               payload = [97]\<rparr>, 0),
             (\<lparr>isLastFrame = True, opcode = TextFrame, mask = Some [1, 2, 3, 4],
               payload = [98]\<rparr>, 1),
             (\<lparr>isLastFrame = True, opcode = TextFrame, mask = Some [1, 2, 3, 4],
               payload = [99]\<rparr>, 2)],
          isClosed = False, readyState = 1, settled = [], nextD = 3,
          effects = [Dispatch OpenEv]\<rparr>"
  by code_simp

section \<open>The mask of outbound frames\<close>

text \<open>
  C2. On a socket whose mask is \<open>[1, 2, 3, 4]\<close>, the Pong frame enqueued in reply to a Ping
  frame has no mask: the object literal of the Ping case has no \<^verbatim>\<open>mask\<close> member, while
  those of \<^verbatim>\<open>send\<close>, \<^verbatim>\<open>ping\<close> and \<^verbatim>\<open>close\<close> have \<^verbatim>\<open>mask: this.mask\<close>.
\<close>

theorem pong_reply_unmasked:
  "on_frame example_env \<lparr>isLastFrame = True, opcode = Ping, mask = None, payload = [9]\<rparr>
      \<lparr>sock = open_ws, frames = [], payloadsLength = 0\<rparr>
   = (\<lparr>sock = \<lparr>ws_mask = Some [1, 2, 3, 4],
               queue = [(\<lparr>isLastFrame = True, opcode = Pong, mask = None,
                          payload = [9]\<rparr>, 0)],
               isClosed = False, readyState = 1, settled = [], nextD = 1,
               effects = [Dispatch OpenEv]\<rparr>,
       frames = [], payloadsLength = 0\<rparr>, Blocked 0)"
  by code_simp

section \<open>Closing\<close>

text \<open>
  C3. \<^verbatim>\<open>close()\<close> on the open socket enqueues its Close frame and is then suspended at
  the \<^verbatim>\<open>await\<close> on the deferred of that frame, which is pending: the \<^verbatim>\<open>finally\<close> block
  has not run, the ready state is still 1, the socket is not closed, and the trace holds
  neither a call of \<^verbatim>\<open>conn.close()\<close> nor a \<^verbatim>\<open>close\<close> event.
\<close>

theorem close_stays_suspended:
  "close example_env None None open_ws =
     (\<lparr>ws_mask = Some [1, 2, 3, 4],
       queue = [(\<lparr>isLastFrame = True, opcode = Close, mask = Some [1, 2, 3, 4],
                  payload = [0, 100]\<rparr>, 0)],
       isClosed = False, readyState = 1, settled = [], nextD = 1,
       effects = [Dispatch OpenEv]\<rparr>, Pending 0)"
  by code_simp

text \<open>
  C4. Two calls of \<^verbatim>\<open>close()\<close> on the open socket: the first is suspended at its
  \<^verbatim>\<open>await\<close> with the socket still not closed, so the second is no no-op and enqueues a
  second Close frame. The trace has no call of \<^verbatim>\<open>writeFrame\<close> and no \<^verbatim>\<open>close\<close> event.
\<close>

theorem close_twice_enqueues_twice:
  "close_twice example_env open_ws =
     (\<lparr>ws_mask = Some [1, 2, 3, 4],
       queue = [(\<lparr>isLastFrame = True, opcode = Close, mask = Some [1, 2, 3, 4],
                  payload = [0, 100]\<rparr>, 0),
                (\<lparr>isLastFrame = True, opcode = Close, mask = Some [1, 2, 3, 4],
                  payload = [0, 100]\<rparr>, 1)],
       isClosed = False, readyState = 1, settled = [], nextD = 2,
       effects = [Dispatch OpenEv]\<rparr>, Pending 0, Pending 1)"
  by code_simp

text \<open>
  C9. The default of the parameter \<^verbatim>\<open>code\<close> is 100, and the payload \<^verbatim>\<open>close()\<close> builds
  from it is the two bytes \<open>0x00, 0x64\<close>: big-endian, but not a code of the 1000 range.
\<close>

theorem default_close_code:
  "unat default_code = 100 \<and> close_payload E default_code None = Inr [0x00, 0x64]"
  by (simp add: default_code_def close_payload_def close_header_def)

section \<open>Control frames\<close>

text \<open>
  Against C5 as stated: when the Ping frame with payload \<open>[1, 2, 3]\<close> is read, the Pong is
  enqueued while the trace holds no \<^verbatim>\<open>ping\<close> event, and the event is dispatched by what
  follows the \<^verbatim>\<open>await\<close>, on the state that already holds the Pong.
\<close>

theorem ping_counterexample:
  "on_frame example_env \<lparr>isLastFrame = True, opcode = Ping, mask = None, payload = [1, 2, 3]\<rparr>
      \<lparr>sock = open_ws, frames = [], payloadsLength = 0\<rparr>
   = (\<lparr>sock = \<lparr>ws_mask = Some [1, 2, 3, 4],
               queue = [(\<lparr>isLastFrame = True, opcode = Pong, mask = None,
                          payload = [1, 2, 3]\<rparr>, 0)],
               isClosed = False, readyState = 1, settled = [], nextD = 1,
               effects = [Dispatch OpenEv]\<rparr>,
       frames = [], payloadsLength = 0\<rparr>, Blocked 0)
   \<and> ping_resume Fulfilled [1, 2, 3]
        \<lparr>ws_mask = Some [1, 2, 3, 4],
         queue = [(\<lparr>isLastFrame = True, opcode = Pong, mask = None, payload = [1, 2, 3]\<rparr>, 0)],
         isClosed = False, readyState = 1, settled = [], nextD = 1,
         effects = [Dispatch OpenEv]\<rparr>
     = (\<lparr>ws_mask = Some [1, 2, 3, 4],
         queue = [(\<lparr>isLastFrame = True, opcode = Pong, mask = None, payload = [1, 2, 3]\<rparr>, 0)],
         isClosed = False, readyState = 1, settled = [], nextD = 1,
         effects = [Dispatch OpenEv, Dispatch (PingEv [1, 2, 3])]\<rparr>, Reading)"
  by code_simp

text \<open>
  C5, amended. For every Ping frame with payload \<open>p\<close> read on a socket that is not closed,
  the state machine first enqueues exactly one Pong frame with payload \<open>p\<close>, and no event
  has been dispatched by then; the \<^verbatim>\<open>ping\<close> event with \<open>p\<close> is dispatched, once, only
  after the awaited enqueue has been fulfilled. While the deferred is pending the loop is
  suspended, and a rejection leaves \<^verbatim>\<open>init\<close> as an exception.
\<close>

theorem ping_enqueues_then_notifies:
  assumes "\<not> isClosed (sock st)" and "opcode f = Ping"
  shows "\<exists>s'. enqueue E (pong_frame (payload f)) (sock st) = Inr (s', nextD (sock st))
           \<and> queue s' = queue (sock st) @ [(pong_frame (payload f), nextD (sock st))]
           \<and> payload (pong_frame (payload f)) = payload f
           \<and> opcode (pong_frame (payload f)) = Pong
           \<and> effects s' = effects (sock st)
           \<and> on_frame E f st =
               (case settlement_of s' (nextD (sock st)) of
                  None \<Rightarrow> (st\<lparr>sock := s'\<rparr>, Blocked (nextD (sock st)))
                | Some Fulfilled \<Rightarrow>
                    (st\<lparr>sock := s'\<lparr>effects := effects s' @ [Dispatch (PingEv (payload f))]\<rparr>\<rparr>,
                     Reading)
                | Some (RejectedWith e) \<Rightarrow> (st\<lparr>sock := s'\<rparr>, Crashed e))"
  using assms
  by (simp add: on_frame_def on_ping_def enqueue_open ping_resume_def dispatchEvent_def
        pong_frame_def split: option.splits settlement.splits)

theorem ping_enqueues_then_notifies_witness:
  "\<not> isClosed (sock \<lparr>sock = open_ws, frames = [], payloadsLength = 0\<rparr>)
   \<and> opcode \<lparr>isLastFrame = True, opcode = Ping, mask = None, payload = [1, 2, 3]\<rparr> = Ping
   \<and> (\<exists>s'. enqueue example_env (pong_frame [1, 2, 3]) open_ws = Inr (s', 0)
           \<and> queue s' = [(pong_frame [1, 2, 3], 0)]
           \<and> effects s' = [Dispatch OpenEv]
           \<and> on_frame example_env
                \<lparr>isLastFrame = True, opcode = Ping, mask = None, payload = [1, 2, 3]\<rparr>
                \<lparr>sock = open_ws, frames = [], payloadsLength = 0\<rparr>
              = (\<lparr>sock = s', frames = [], payloadsLength = 0\<rparr>, Blocked 0))"
proof -
  let ?st = "\<lparr>sock = open_ws, frames = [], payloadsLength = 0\<rparr>"
  let ?f = "\<lparr>isLastFrame = True, opcode = Ping, mask = None, payload = [1, 2, 3]\<rparr>"
  have h1: "\<not> isClosed (sock ?st)" by (simp add: open_ws_def)
  have h2: "opcode ?f = Ping" by simp
  from ping_enqueues_then_notifies [OF h1 h2, of example_env]
  obtain s' where s':
      "enqueue example_env (pong_frame (payload ?f)) (sock ?st) = Inr (s', nextD (sock ?st))"
      "queue s' = queue (sock ?st) @ [(pong_frame (payload ?f), nextD (sock ?st))]"
      "effects s' = effects (sock ?st)"
      "on_frame example_env ?f ?st =
               (case settlement_of s' (nextD (sock ?st)) of
                  None \<Rightarrow> (?st\<lparr>sock := s'\<rparr>, Blocked (nextD (sock ?st)))
                | Some Fulfilled \<Rightarrow>
                    (?st\<lparr>sock := s'\<lparr>effects := effects s' @ [Dispatch (PingEv (payload ?f))]\<rparr>\<rparr>,
                     Reading)
                | Some (RejectedWith e) \<Rightarrow> (?st\<lparr>sock := s'\<rparr>, Crashed e))"
    by blast
  have "settlement_of s' 0 = None"
    using s'(1) h1 by (auto simp: enqueue_open settlement_of_def open_ws_def)
  then show ?thesis
    using h1 s' by (intro conjI exI [of _ s']) (simp_all add: open_ws_def)
qed

text \<open>
  C6. The Close frame with payload \<open>0x03, 0xE8\<close> and "bye" is read on the open socket: the
  code 1000 and the reason are extracted and the echo is enqueued, but the loop is then
  suspended at the \<^verbatim>\<open>await\<close> in \<^verbatim>\<open>close\<close>. The ready state stays 2, the socket is not
  closed, \<^verbatim>\<open>conn.close()\<close> is not called, and neither \<^verbatim>\<open>close\<close> nor \<^verbatim>\<open>error\<close> is
  dispatched.
\<close>

theorem close_frame_blocks:
  "new_WS example_env (Inr example_conn)
     [Inr \<lparr>isLastFrame = True, opcode = Close, mask = None,
           payload = [0x03, 0xE8] @ ascii_encode ''bye''\<rparr>]
   = (\<lparr>sock = \<lparr>ws_mask = Some [1, 2, 3, 4],
               queue = [(\<lparr>isLastFrame = True, opcode = Close, mask = Some [1, 2, 3, 4],
                          payload = [0x03, 0xE8, 98, 121, 101]\<rparr>, 0)],
               isClosed = False, readyState = 2, settled = [], nextD = 1,
               effects = [Dispatch OpenEv]\<rparr>,
       frames = [], payloadsLength = 0\<rparr>, Blocked 0)"
  by code_simp

text \<open>
  C10. The Close case reads the payload at the indices 0 and 1 and takes the reason from
  index 2 on, with no check of the length. Both reads are in range exactly when the payload
  has at least two bytes, and then the code is the big-endian value of the first two bytes.
  On a shorter payload the read at index 1 is out of range and counts as 0; the handler goes
  on all the same and echoes a Close frame built from that code.
\<close>

theorem close_payload_indexing:
  "((js_index p 0 \<noteq> None \<and> js_index p 1 \<noteq> None) = (2 \<le> length p))
   \<and> (2 \<le> length p \<longrightarrow> close_code p = push_bit 8 (ucast (p ! 0)) OR ucast (p ! 1))
   \<and> (length p < 2 \<longrightarrow>
        js_index p 1 = None
        \<and> close_code p = (case p of [] \<Rightarrow> 0 | b # _ \<Rightarrow> push_bit 8 (ucast b)))
   \<and> close_reason E p = decode E (drop 2 p)
   \<and> (\<not> isClosed (sock st) \<and> opcode f = Close \<and> payload f = p \<longrightarrow>
        map fst (queue (sock (fst (on_frame E f st)))) =
          map fst (queue (sock st)) @
            [\<lparr>isLastFrame = True, opcode = Close, mask = ws_mask (sock st),
              payload = close_header (close_code p) @
                 (if close_reason E p = [] then [] else encode E (close_reason E p))\<rparr>])"
proof -
  have "(js_index p 0 \<noteq> None \<and> js_index p 1 \<noteq> None) = (2 \<le> length p)"
    by (auto simp: js_index_def)
  moreover have "2 \<le> length p \<longrightarrow> close_code p = push_bit 8 (ucast (p ! 0)) OR ucast (p ! 1)"
    by (simp add: close_code_def js_index_def to_int32_def)
  moreover have "length p < 2 \<longrightarrow>
        js_index p 1 = None
        \<and> close_code p = (case p of [] \<Rightarrow> 0 | b # _ \<Rightarrow> push_bit 8 (ucast b))"
    by (cases p) (simp_all add: close_code_def js_index_def to_int32_def)
  moreover have "close_reason E p = decode E (drop 2 p)"
    by (simp add: close_reason_def)
  moreover have "\<not> isClosed (sock st) \<and> opcode f = Close \<and> payload f = p \<longrightarrow>
        map fst (queue (sock (fst (on_frame E f st)))) =
          map fst (queue (sock st)) @
            [\<lparr>isLastFrame = True, opcode = Close, mask = ws_mask (sock st),
              payload = close_header (close_code p) @
                 (if close_reason E p = [] then [] else encode E (close_reason E p))\<rparr>]"
    using on_close_queue [of st E f] by (auto simp: on_frame_def)
  ultimately show ?thesis by blast
qed

theorem close_payload_indexing_witness:
  "2 \<le> length [0x03, 0xE8, 98, 121, 101 :: 8 word]
   \<and> js_index [0x03, 0xE8, 98, 121, 101] 0 \<noteq> None
   \<and> js_index [0x03, 0xE8, 98, 121, 101] 1 \<noteq> None
   \<and> close_code [0x03, 0xE8, 98, 121, 101] = 1000
   \<and> close_reason example_env [0x03, 0xE8, 98, 121, 101] = ''bye''
   \<and> length [5 :: 8 word] < 2
   \<and> js_index [5] 1 = None
   \<and> close_code [5] = 1280
   \<and> \<not> isClosed (sock \<lparr>sock = open_ws, frames = [], payloadsLength = 0\<rparr>)
   \<and> map fst (queue (sock (fst (on_frame example_env
          \<lparr>isLastFrame = True, opcode = Close, mask = None, payload = [5]\<rparr>
          \<lparr>sock = open_ws, frames = [], payloadsLength = 0\<rparr>))))
       = [\<lparr>isLastFrame = True, opcode = Close, mask = Some [1, 2, 3, 4], payload = [5, 0]\<rparr>]"
proof -
  let ?st = "\<lparr>sock = open_ws, frames = [], payloadsLength = 0\<rparr>"
  let ?f = "\<lparr>isLastFrame = True, opcode = Close, mask = None, payload = [5]\<rparr>"
  note long = close_payload_indexing [of "[0x03, 0xE8, 98, 121, 101]" example_env ?st ?f]
  note short = close_payload_indexing [of "[5]" example_env ?st ?f]
  have len: "2 \<le> length [0x03, 0xE8, 98, 121, 101 :: 8 word]" "length [5 :: 8 word] < 2"
    by simp_all
  have not_closed: "\<not> isClosed (sock ?st)" by (simp add: open_ws_def)
  have code: "push_bit 8 (ucast ([0x03, 0xE8, 98, 121, 101 :: 8 word] ! 0)) OR
              ucast ([0x03, 0xE8, 98, 121, 101 :: 8 word] ! 1) = (1000 :: 32 word)"
    by simp
  have reason: "decode example_env (drop 2 [0x03, 0xE8, 98, 121, 101]) = ''bye''"
    by code_simp
  have echo: "close_header (close_code [5]) @
                (if close_reason example_env [5] = [] then []
                 else encode example_env (close_reason example_env [5])) = [5, 0]"
    by code_simp
  have mask: "ws_mask (sock ?st) = Some [1, 2, 3, 4]" "queue (sock ?st) = []"
    by (simp_all add: open_ws_def)
  from long len(1) code reason
  have "js_index [0x03, 0xE8, 98, 121, 101] 0 \<noteq> None
        \<and> js_index [0x03, 0xE8, 98, 121, 101] 1 \<noteq> None
        \<and> close_code [0x03, 0xE8, 98, 121, 101] = 1000
        \<and> close_reason example_env [0x03, 0xE8, 98, 121, 101] = ''bye''"
    by simp
  moreover from short len(2) not_closed echo mask
  have "js_index [5] 1 = None \<and> close_code [5] = 1280
        \<and> map fst (queue (sock (fst (on_frame example_env ?f ?st))))
           = [\<lparr>isLastFrame = True, opcode = Close, mask = Some [1, 2, 3, 4], payload = [5, 0]\<rparr>]"
    by simp
  ultimately show ?thesis using len not_closed by simp
qed

section \<open>A failed handshake\<close>

text \<open>
  C8. In every run of \<^verbatim>\<open>createConnection\<close> in which the transport was opened and the
  handshake then failed, \<^verbatim>\<open>conn.close()\<close> is the last thing done, after the handshake and
  before the error is returned to the caller, and no connection is returned. The error is
  that of the handshake, unless \<^verbatim>\<open>conn.close()\<close> itself throws.
\<close>

theorem handshake_failure_closes_transport:
  assumes "parseURL E address = Inr u"
    and "createConnection E address headers = (calls, r)"
    and "Connect tls host p \<in> set calls" and "connect E tls host p = None"
    and "Handshake h \<in> set calls" and "handshake E u h = Some e"
  shows "calls = [Connect tls host p, Handshake h, ConnClose]
         \<and> r = Inl (case connClose E 0 of None \<Rightarrow> e | Some e' \<Rightarrow> e')"
  using assms
  by (auto simp: createConnection_def open_and_handshake_def Let_def
           split: if_splits option.splits sum.splits)

theorem handshake_failure_closes_transport_witness:
  "createConnection (example_env\<lparr>handshake := \<lambda>u hs. Some (External 5)\<rparr>)
      ''wss://example.test'' [(''Authorization'', ''Bearer token'')]
   = ([Connect True ''example.test'' (Some 443),
       Handshake [(''authorization'', ''Bearer token'')], ConnClose],
      Inl (External 5))"
proof -
  let ?E = "example_env\<lparr>handshake := \<lambda>u hs. Some (External 5)\<rparr>"
  let ?h = "[(''Authorization'', ''Bearer token'')]"
  obtain calls r where run: "createConnection ?E ''wss://example.test'' ?h = (calls, r)"
    by (cases "createConnection ?E ''wss://example.test'' ?h")
  have u: "parseURL ?E ''wss://example.test'' = Inr example_url"
    by (simp add: example_env_def)
  let ?set = "[(''authorization'', ''Bearer token'')]"
  have eff: "fst (createConnection ?E ''wss://example.test'' ?h)
             = [Connect True ''example.test'' (Some 443), Handshake ?set, ConnClose]"
    by code_simp
  have c: "Connect True ''example.test'' (Some 443) \<in> set calls"
    and h: "Handshake ?set \<in> set calls"
    using eff run by simp_all
  have ok: "connect ?E True ''example.test'' (Some 443) = None"
    by (simp add: example_env_def)
  have bad: "handshake ?E example_url ?set = Some (External 5)"
    by simp
  have "connClose ?E 0 = None" by (simp add: example_env_def)
  with handshake_failure_closes_transport [OF u run c ok h bad] run
  show ?thesis by simp
qed

end
